theory Spec2Isabelle
  imports Complex_Main "HOL-Library.Sublist"
begin

section \<open>Python strings\<close>

text \<open>
  A Python \<open>str\<close> is a sequence of Unicode code points; it is modelled as the list of
  its code points.  ASCII text of the source is written as a literal and read through
  \<open>ascii\<close>; the few other characters are given by their code point.
\<close>

type_synonym ustr = "nat list"

definition ascii :: "string \<Rightarrow> ustr" where
  "ascii s = map of_char s"

text \<open>\<open>str.isspace\<close> on one character: the code points CPython classifies as whitespace.\<close>

definition isspace :: "nat \<Rightarrow> bool" where
  "isspace c \<longleftrightarrow>
     (9 \<le> c \<and> c \<le> 13) \<or> (28 \<le> c \<and> c \<le> 32) \<or> c = 133 \<or> c = 160 \<or> c = 5760 \<or>
     (8192 \<le> c \<and> c \<le> 8202) \<or> c = 8232 \<or> c = 8233 \<or> c = 8239 \<or> c = 8287 \<or>
     c = 12288"

text \<open>\<open>s.strip()\<close>: whitespace removed at both ends.\<close>

definition strip :: "ustr \<Rightarrow> ustr" where
  "strip s = rev (dropWhile isspace (rev (dropWhile isspace s)))"

text \<open>\<open>str(n)\<close> for an integer, as the f-string field \<open>{target_words}\<close> formats it.\<close>

fun digits10 :: "nat \<Rightarrow> ustr" where
  "digits10 n = (if n < 10 then [48 + n] else digits10 (n div 10) @ [48 + n mod 10])"

declare digits10.simps [simp del]

definition str_int :: "int \<Rightarrow> ustr" where
  "str_int i = (if i < 0 then 45 # digits10 (nat (- i)) else digits10 (nat i))"

text \<open>\<open>text.split('\n')\<close> and \<open>'\n'.join(lines)\<close>.\<close>

fun split_nl :: "ustr \<Rightarrow> ustr list" where
  "split_nl [] = [[]]"
| "split_nl (c # cs) =
     (if c = 10 then [] # split_nl cs
      else (case split_nl cs of [] \<Rightarrow> [[c]] | l # ls \<Rightarrow> (c # l) # ls))"

fun join_nl :: "ustr list \<Rightarrow> ustr" where
  "join_nl [] = []"
| "join_nl [l] = l"
| "join_nl (l # ls) = l @ 10 # join_nl ls"

section \<open>textwrap.dedent\<close>

text \<open>
  The standard library's \<open>textwrap.dedent\<close>, which \<open>generate_novel\<close> applies to the
  formatted template:
  \<^verbatim>\<open>
  _whitespace_only_re = re.compile('^[ \t]+$', re.MULTILINE)
  _leading_whitespace_re = re.compile('(^[ \t]*)(?:[^ \t\n])', re.MULTILINE)

  def dedent(text):
      margin = None
      text = _whitespace_only_re.sub('', text)
      indents = _leading_whitespace_re.findall(text)
      for indent in indents:
          if margin is None:
              margin = indent
          elif indent.startswith(margin):
              pass
          elif margin.startswith(indent):
              margin = indent
          else:
              for i, (x, y) in enumerate(zip(margin, indent)):
                  if x != y:
                      margin = margin[:i]
                      break
      if margin:
          text = re.sub(r'(?m)^' + margin, '', text)
      return text
  \<close>
  Both regular expressions work line by line (neither class matches a line feed), so
  each is a map over the lines of the text.
\<close>

definition is_blank :: "nat \<Rightarrow> bool" where
  "is_blank c \<longleftrightarrow> c = 32 \<or> c = 9"

definition whitespace_only_sub :: "ustr \<Rightarrow> ustr" where
  "whitespace_only_sub text =
     join_nl (map (\<lambda>l. if list_all is_blank l then [] else l) (split_nl text))"

definition leading_whitespace :: "ustr \<Rightarrow> ustr list" where
  "leading_whitespace text =
     map (takeWhile is_blank) (filter (\<lambda>l. \<not> list_all is_blank l) (split_nl text))"

fun cut_at_diff :: "ustr \<Rightarrow> ustr \<Rightarrow> ustr" where
  "cut_at_diff (x # xs) (y # ys) = (if x \<noteq> y then [] else x # cut_at_diff xs ys)"
| "cut_at_diff xs ys = xs"

definition update_margin :: "ustr option \<Rightarrow> ustr \<Rightarrow> ustr option" where
  "update_margin margin indent =
     (case margin of
        None \<Rightarrow> Some indent
      | Some m \<Rightarrow>
          if prefix m indent then Some m
          else if prefix indent m then Some indent
          else Some (cut_at_diff m indent))"

definition remove_margin :: "ustr \<Rightarrow> ustr \<Rightarrow> ustr" where
  "remove_margin m text =
     join_nl (map (\<lambda>l. if prefix m l then drop (length m) l else l) (split_nl text))"

definition dedent :: "ustr \<Rightarrow> ustr" where
  "dedent text =
     (let text1 = whitespace_only_sub text;
          margin = foldl update_margin None (leading_whitespace text1)
      in case margin of
           None \<Rightarrow> text1
         | Some m \<Rightarrow> if m \<noteq> [] then remove_margin m text1 else text1)"

section \<open>The prompt template of generate_novel\<close>

text \<open>
  The arguments of \<open>generate_novel\<close>.  The temperature is a float that the function only
  passes on, so its type is left open.
\<close>

record 't story_request =
  protagonist1 :: ustr
  protagonist2 :: ustr
  genre :: ustr
  premise :: ustr
  language :: ustr
  target_words :: int
  temperature :: 't
  model :: ustr

text \<open>The indentation of the template lines in the source: eight spaces.\<close>

definition ind8 :: ustr where
  "ind8 = ascii ''        ''"

text \<open>The lines of the f-string after the fields are filled in, without indentation.\<close>

definition body_write :: "ustr \<Rightarrow> ustr" where
  "body_write lang = ascii ''Write a complete short story in '' @ lang @ ascii ''.''"

definition body_requirements :: ustr where
  "body_requirements = ascii ''Requirements:''"

definition body_genre :: "ustr \<Rightarrow> ustr" where
  "body_genre g = ascii ''- Genre: '' @ g"

definition body_characters :: "ustr \<Rightarrow> ustr \<Rightarrow> ustr" where
  "body_characters p1 p2 = ascii ''- Main characters: '' @ p1 @ ascii '' and '' @ p2"

definition body_hook :: ustr where
  "body_hook = ascii ''- Start with a strong hook in the first 2'' @ [8211] @ ascii ''3 sentences.''"

definition body_arc :: ustr where
  "body_arc = ascii ''- Maintain clear scene breaks and a satisfying arc (setup '' @ [8594]
     @ ascii '' escalation '' @ [8594] @ ascii '' climax '' @ [8594] @ ascii '' resolution).''"

definition body_show :: ustr where
  "body_show = ascii ''- Show, don'' @ [39] @ ascii ''t tell. Keep dialogue natural.''"

definition body_pacing :: ustr where
  "body_pacing = ascii ''- Keep pacing tight and avoid filler.''"

definition body_tone :: ustr where
  "body_tone = ascii ''- Tone and diction should match the genre.''"

definition body_length :: "int \<Rightarrow> ustr" where
  "body_length n = ascii ''- Target length: ~'' @ str_int n @ ascii '' words ('' @ [177] @ ascii ''15%).''"

definition body_end :: ustr where
  "body_end = ascii ''- End with a resonant final line (no meta commentary).''"

definition body_backstory :: ustr where
  "body_backstory = ascii ''Backstory / seed premise:''"

text \<open>
  The f-string of lines 50 to 65, fields filled in: it opens with a line feed, every
  line of text is indented by \<open>ind8\<close>, line 62 is empty, and the closing quotes stand on
  an indented line of their own.
\<close>

definition template :: "'t story_request \<Rightarrow> ustr" where
  "template r =
     [10] @ ind8 @ body_write (language r) @
     [10] @ ind8 @ body_requirements @
     [10] @ ind8 @ body_genre (genre r) @
     [10] @ ind8 @ body_characters (protagonist1 r) (protagonist2 r) @
     [10] @ ind8 @ body_hook @
     [10] @ ind8 @ body_arc @
     [10] @ ind8 @ body_show @
     [10] @ ind8 @ body_pacing @
     [10] @ ind8 @ body_tone @
     [10] @ ind8 @ body_length (target_words r) @
     [10] @ ind8 @ body_end @
     [10] @
     [10] @ ind8 @ body_backstory @
     [10] @ ind8 @ strip (premise r) @
     [10] @ ind8"

text \<open>The Prompt Builder: \<open>style_guide = textwrap.dedent(f"""...""").strip()\<close>.\<close>

definition style_guide :: "'t story_request \<Rightarrow> ustr" where
  "style_guide r = strip (dedent (template r))"

text \<open>
  The values the form offers for the genre, the output language and the model, and the
  range of the length slider.
\<close>

definition genres :: "ustr list" where
  "genres =
     [[47196, 47592, 49828], [48120, 49828, 53552, 47532], [49828, 47540, 47084],
      [54032, 53440, 51648], ascii ''SF'', [54840, 47084], [49457, 51109, 49548, 49444],
      [55092, 47676, 46300, 46972, 47560], [53076, 48120, 46356],
      [49324, 44537, 47, 50669, 49324]]"

definition languages :: "ustr list" where
  "languages = [[54620, 44397, 50612], ascii ''English'']"

definition models :: "ustr list" where
  "models = [ascii ''gpt-4o-mini'', ascii ''gpt-4o'']"

text \<open>
  A valid StoryRequest: the names and the premise are non-empty after trimming, genre,
  language and model are among the offered values, the target length is within the
  slider's range.  (The temperature is opaque here and carries no bound.)
\<close>

definition valid_request :: "'t story_request \<Rightarrow> bool" where
  "valid_request r \<longleftrightarrow>
     strip (protagonist1 r) \<noteq> [] \<and> strip (protagonist2 r) \<noteq> [] \<and> strip (premise r) \<noteq> [] \<and>
     genre r \<in> set genres \<and> language r \<in> set languages \<and> model r \<in> set models \<and>
     400 \<le> target_words r \<and> target_words r \<le> 3000"

text \<open>The number of positions of a text at which a pattern occurs.\<close>

fun occurrences :: "ustr \<Rightarrow> ustr \<Rightarrow> nat" where
  "occurrences pat [] = (if pat = [] then 1 else 0)"
| "occurrences pat (c # cs) = (if prefix pat (c # cs) then 1 else 0) + occurrences pat cs"

section \<open>Module state, credentials and the client\<close>

text \<open>
  \<open>_SDK_STYLE\<close> is set by the import at the top of the module: \<open>from openai import OpenAI\<close>
  succeeds with the new package; otherwise \<open>import openai\<close> is tried, and its failure
  ends the script.
\<close>

datatype sdk = New | Legacy




text \<open>The chat-completion request: the keyword arguments of \<open>create\<close>.\<close>

record 't chat_request =
  req_model :: ustr
  req_temperature :: 't
  req_max_tokens :: int
  req_messages :: "(ustr \<times> ustr) list"

text \<open>
  What the program does to the outside, in order: a lookup of the API key, a call of the
  chat-completion service (with the call shape, the key presented and the request), and
  the messages and results the script's own calls show on the page.
\<close>

datatype 't event =
    KeyLookup
  | ApiCall sdk "ustr option" "'t chat_request"
  | UiError ustr
  | UiWarning ustr
  | UiSuccess ustr
  | UiSubheader ustr
  | UiDownload ustr ustr
  | UiMarkdown ustr

text \<open>
  The secrets store behind \<open>st.secrets\<close>: either no secrets file exists, and every
  access raises \<open>StreamlitSecretNotFoundError\<close> with Streamlit's message, or the files
  parse to a dictionary from names to strings.
\<close>

datatype secrets_store = NoSecretsFile ustr | SecretsFile "ustr \<rightharpoonup> ustr"

text \<open>
  The state a run of the script works on: the secrets store, whether Streamlit has parsed
  it already, the environment \<open>os.environ\<close>, \<open>_SDK_STYLE\<close>, the legacy package's
  module attribute \<open>openai.api_key\<close>, and the events so far.
\<close>

record 't world =
  secrets :: secrets_store
  secrets_parsed :: bool
  environ :: "ustr \<rightharpoonup> ustr"
  sdk_style :: sdk
  openai_api_key :: "ustr option"
  trace :: "'t event list"

text \<open>
  Exceptions: \<open>st.stop()\<close> raises Streamlit's stop exception, which is not an
  \<open>Exception\<close> and passes every \<open>except Exception\<close>; \<open>generate_novel\<close> raises
  \<open>RuntimeError\<close> with a message; an access to \<open>st.secrets\<close> raises
  \<open>StreamlitSecretNotFoundError\<close>, an \<open>Exception\<close>, when there is no secrets file.
\<close>

datatype error = StopException | RuntimeError ustr | StreamlitSecretNotFoundError ustr

definition emit :: "'t event list \<Rightarrow> 't world \<Rightarrow> 't world" where
  "emit es w = w\<lparr>trace := trace w @ es\<rparr>"

definition OPENAI_API_KEY :: ustr where
  "OPENAI_API_KEY = ascii ''OPENAI_API_KEY''"

text \<open>
  An access to \<open>st.secrets\<close> (membership test or subscript).  Streamlit parses the
  secrets files on the first access and keeps the result; with no file it raises, and
  the next access tries again.  On a successful parse it also copies every entry into
  \<open>os.environ\<close>.
\<close>

definition st_secrets :: "'t world \<Rightarrow> (error + (ustr \<rightharpoonup> ustr)) \<times> 't world" where
  "st_secrets w =
     (case secrets w of
        NoSecretsFile msg \<Rightarrow> (Inl (StreamlitSecretNotFoundError msg), w)
      | SecretsFile m \<Rightarrow>
          (Inr m,
           if secrets_parsed w then w
           else w\<lparr>secrets_parsed := True, environ := environ w ++ m\<rparr>))"

text \<open>
  \<open>_get_api_key\<close>, lines 19 to 24: the membership test on \<open>st.secrets\<close> comes first
  and is not guarded, so its exception leaves the function; \<open>os.getenv\<close> is reached
  only when the store exists and lacks the key.
\<close>

definition get_api_key :: "'t world \<Rightarrow> (error + ustr option) \<times> 't world" where
  "get_api_key w =
     (case st_secrets (emit [KeyLookup] w) of
        (Inl e, w1) \<Rightarrow> (Inl e, w1)
      | (Inr m, w1) \<Rightarrow>
          (case m OPENAI_API_KEY of
             Some v \<Rightarrow> (Inr (Some v), w1)
           | None \<Rightarrow> (Inr (environ w1 OPENAI_API_KEY), w1)))"

text \<open>\<open>not api_key\<close>: true of \<open>None\<close> and of the empty string.\<close>

definition falsy :: "ustr option \<Rightarrow> bool" where
  "falsy k = (case k of None \<Rightarrow> True | Some s \<Rightarrow> s = [])"

text \<open>
  \<open>_get_client\<close>: the new package's client object holds the key; the legacy path
  stores the key in the module attribute and returns \<open>None\<close>.
\<close>

datatype client = OpenAI ustr

definition get_client :: "'t world \<Rightarrow> (error + client option) \<times> 't world" where
  "get_client w =
     (case get_api_key w of
        (Inl e, w1) \<Rightarrow> (Inl e, w1)
      | (Inr api_key, w1) \<Rightarrow>
          (case api_key of
             None \<Rightarrow> (Inl StopException, w1)
           | Some k \<Rightarrow>
               if k = [] then (Inl StopException, w1)
               else if sdk_style w1 = New then (Inr (Some (OpenAI k)), w1)
               else (Inr None, w1\<lparr>openai_api_key := Some k\<rparr>)))"

section \<open>generate_novel\<close>

text \<open>
  The chat-completion service is a parameter: given the key presented and the request,
  the call either raises an \<open>Exception\<close> (identified by its \<open>str\<close>) or returns a
  response, of which the code reads the message contents of the choices (a content may
  be \<open>None\<close>).
\<close>

datatype api_result = ApiRaises ustr | ApiResponse "ustr option list"

type_synonym 't backend = "ustr option \<Rightarrow> 't chat_request \<Rightarrow> api_result"

text \<open>
  The new SDK path, lines 72 to 92.  A failure inside the \<open>try\<close> (the call itself,
  the index \<open>[0]\<close> on an empty list, \<open>.strip()\<close> on \<open>None\<close>) is caught and raised
  again as \<open>RuntimeError\<close>.
\<close>

definition new_sdk_path ::
  "'t backend \<Rightarrow> client option \<Rightarrow> 't story_request \<Rightarrow> ustr \<Rightarrow> 't world \<Rightarrow> (error + ustr) \<times> 't world"
where
  "new_sdk_path api cl r sg w =
     (case cl of
        None \<Rightarrow>
          (Inl (RuntimeError (ascii ''OpenAI API error: '' @ [39] @ ascii ''NoneType'' @ [39]
             @ ascii '' object has no attribute '' @ [39] @ ascii ''chat'' @ [39])), w)
      | Some (OpenAI k) \<Rightarrow>
          (let rq = \<lparr>req_model = model r, req_temperature = temperature r, req_max_tokens = 4096,
                     req_messages =
                       [(ascii ''system'',
                         ascii ''You are an award-winning novelist. You craft vivid scenes, believable dialogue, and tight plots.''),
                        (ascii ''user'', sg)]\<rparr>;
               w1 = emit [ApiCall New (Some k) rq] w
           in case api (Some k) rq of
                ApiRaises e \<Rightarrow> (Inl (RuntimeError (ascii ''OpenAI API error: '' @ e)), w1)
              | ApiResponse [] \<Rightarrow>
                  (Inl (RuntimeError (ascii ''OpenAI API error: '' @ ascii ''list index out of range'')), w1)
              | ApiResponse (None # cs) \<Rightarrow>
                  (Inl (RuntimeError (ascii ''OpenAI API error: '' @ [39] @ ascii ''NoneType'' @ [39]
                     @ ascii '' object has no attribute '' @ [39] @ ascii ''strip'' @ [39])), w1)
              | ApiResponse (Some c # cs) \<Rightarrow> (Inr (strip c), w1)))"

text \<open>The legacy SDK path, lines 96 to 116: the call reads the key from \<open>openai.api_key\<close>.\<close>

definition legacy_sdk_path ::
  "'t backend \<Rightarrow> 't story_request \<Rightarrow> ustr \<Rightarrow> 't world \<Rightarrow> (error + ustr) \<times> 't world"
where
  "legacy_sdk_path api r sg w =
     (let rq = \<lparr>req_model = model r, req_temperature = temperature r, req_max_tokens = 4096,
                req_messages =
                  [(ascii ''system'',
                    ascii ''You are an award-winning novelist. You craft vivid scenes, believable dialogue, and tight plots.''),
                   (ascii ''user'', sg)]\<rparr>;
          w1 = emit [ApiCall Legacy (openai_api_key w) rq] w
      in case api (openai_api_key w) rq of
           ApiRaises e \<Rightarrow> (Inl (RuntimeError (ascii ''OpenAI API error: '' @ e)), w1)
         | ApiResponse [] \<Rightarrow>
             (Inl (RuntimeError (ascii ''OpenAI API error: '' @ ascii ''list index out of range'')), w1)
         | ApiResponse (None # cs) \<Rightarrow>
             (Inl (RuntimeError (ascii ''OpenAI API error: '' @ [39] @ ascii ''NoneType'' @ [39]
                @ ascii '' object has no attribute '' @ [39] @ ascii ''strip'' @ [39])), w1)
         | ApiResponse (Some c # cs) \<Rightarrow> (Inr (strip c), w1))"

definition generate_novel ::
  "'t backend \<Rightarrow> 't story_request \<Rightarrow> 't world \<Rightarrow> (error + ustr) \<times> 't world"
where
  "generate_novel api r w =
     (let sg = style_guide r
      in case get_client w of
           (Inl e, w1) \<Rightarrow> (Inl e, w1)
         | (Inr cl, w1) \<Rightarrow>
             if sdk_style w1 = New then new_sdk_path api cl r sg w1
             else legacy_sdk_path api r sg w1)"

section \<open>The submit handler\<close>

text \<open>The widgets' values when the script runs, and whether the button was pressed.\<close>

record 't form =
  f_protagonist1 :: ustr
  f_protagonist2 :: ustr
  f_genre :: ustr
  f_premise :: ustr
  f_default_lang :: ustr
  f_target_words :: int
  f_temperature :: 't
  f_model :: ustr
  f_cta :: bool

definition msg_no_key :: ustr where
  "msg_no_key = ascii ''OPENAI_API_KEY'' @
     [44032, 32, 49444, 51221, 46104, 50612, 32, 51080, 51648, 32, 50506, 49845, 45768, 45796,
      46, 32, 49324, 51060, 46300, 48148, 32, 50504, 45236, 47484, 32, 52280, 44256, 54644, 32,
      53412, 47484, 32, 46321, 47197, 54616, 49464, 50836, 46]"

definition msg_incomplete :: ustr where
  "msg_incomplete =
     [51452, 51064, 44277, 32, 51060, 47492, 32, 50, 44060, 50752, 32, 49828, 53664, 47532, 32,
      54532, 47212, 54532, 53944, 47484, 32, 47784, 46160, 32, 51077, 47141, 54644, 51452,
      49464, 50836, 46]"

definition msg_story :: ustr where
  "msg_story = [128221, 32, 49373, 49457, 46108, 32, 49548, 49444]"

definition msg_done :: ustr where
  "msg_done =
     [50756, 47308, 33, 32, 50500, 47000, 50640, 49436, 32, 44208, 44284, 47484, 32, 54869,
      51064, 54616, 49464, 50836, 46]"

text \<open>
  Lines 175 to 213.  The result is \<open>Inl StopException\<close> where the script ends in
  \<open>st.stop()\<close>, \<open>Inl\<close> of another exception where that exception leaves the script
  uncaught (the key lookup of line 176 stands outside every \<open>try\<close>), and \<open>Inr ()\<close>
  where the script runs on to the footer.  The \<open>except Exception\<close> of line 198 catches
  whatever \<open>generate_novel\<close> raises except the stop exception, and shows its text.
\<close>

definition on_submit :: "'t backend \<Rightarrow> 't form \<Rightarrow> 't world \<Rightarrow> (error + unit) \<times> 't world" where
  "on_submit api f w =
     (if \<not> f_cta f then (Inr (), w)
      else case get_api_key w of
        (Inl e, w1) \<Rightarrow> (Inl e, w1)
      | (Inr api_key, w1) \<Rightarrow>
          if falsy api_key then (Inl StopException, emit [UiError msg_no_key] w1)
          else if f_protagonist1 f = [] \<or> f_protagonist2 f = [] \<or> f_premise f = []
          then (Inl StopException, emit [UiWarning msg_incomplete] w1)
          else
            (case generate_novel api
                    \<lparr>protagonist1 = strip (f_protagonist1 f),
                     protagonist2 = strip (f_protagonist2 f),
                     genre = f_genre f, premise = f_premise f, language = f_default_lang f,
                     target_words = f_target_words f, temperature = f_temperature f,
                     model = f_model f\<rparr> w1 of
               (Inl (RuntimeError m), w2) \<Rightarrow> (Inl StopException, emit [UiError m] w2)
             | (Inl (StreamlitSecretNotFoundError m), w2) \<Rightarrow>
                 (Inl StopException, emit [UiError m] w2)
             | (Inl StopException, w2) \<Rightarrow> (Inl StopException, w2)
             | (Inr story, w2) \<Rightarrow>
                 (Inr (),
                  emit [UiSuccess msg_done,
                       UiSubheader msg_story,
                       UiDownload
                         (ascii ''novel_'' @ f_protagonist1 f @ ascii ''_'' @ f_protagonist2 f
                            @ ascii ''.txt'')
                         story,
                       UiMarkdown (ascii ''---''),
                       UiMarkdown story] w2)))"

text \<open>
  Any sequence of the module's operations, for statements about everything that can
  happen after the module is loaded.
\<close>

datatype 't action =
    CallGetApiKey
  | CallGetClient
  | CallGenerateNovel "'t story_request"
  | Submit "'t form"

fun perform :: "'t backend \<Rightarrow> 't action \<Rightarrow> 't world \<Rightarrow> 't world" where
  "perform api CallGetApiKey w = snd (get_api_key w)"
| "perform api CallGetClient w = snd (get_client w)"
| "perform api (CallGenerateNovel r) w = snd (generate_novel api r w)"
| "perform api (Submit f) w = snd (on_submit api f w)"

fun run :: "'t backend \<Rightarrow> 't action list \<Rightarrow> 't world \<Rightarrow> 't world" where
  "run api [] w = w"
| "run api (a # as) w = run api as (perform api a w)"

text \<open>Reading the trace: the key lookups, the service calls and their call shapes.\<close>

fun is_key_lookup :: "'t event \<Rightarrow> bool" where
  "is_key_lookup KeyLookup = True"
| "is_key_lookup _ = False"

fun is_api_call :: "'t event \<Rightarrow> bool" where
  "is_api_call (ApiCall s k rq) = True"
| "is_api_call _ = False"

fun call_shape_ok :: "sdk \<Rightarrow> 't event \<Rightarrow> bool" where
  "call_shape_ok s (ApiCall s' k rq) = (s' = s)"
| "call_shape_ok s _ = True"

definition key_lookups :: "'t world \<Rightarrow> nat" where
  "key_lookups w = length (filter is_key_lookup (trace w))"

definition api_calls :: "'t world \<Rightarrow> 't event list" where
  "api_calls w = filter is_api_call (trace w)"

section \<open>The request as the specification describes it\<close>

text \<open>
  Two messages, a fixed system instruction and the Prompt Builder's output as the user
  message, with the requested model and temperature and a constant limit on the
  response length.  The two branches of \<open>generate_novel\<close> are compared with it below.
\<close>

definition system_instruction :: ustr where
  "system_instruction =
     ascii ''You are an award-winning novelist. You craft vivid scenes, believable dialogue, and tight plots.''"

definition outbound_request :: "'t story_request \<Rightarrow> 't chat_request" where
  "outbound_request r =
     \<lparr>req_model = model r, req_temperature = temperature r, req_max_tokens = 4096,
      req_messages = [(ascii ''system'', system_instruction), (ascii ''user'', style_guide r)]\<rparr>"

fun call_args :: "'t event \<Rightarrow> (ustr option \<times> 't chat_request) option" where
  "call_args (ApiCall s k rq) = Some (k, rq)"
| "call_args _ = None"

section \<open>The lines of the template\<close>

text \<open>
  \<open>dedent\<close> on a text given by its lines, and the template as a list of lines; the
  lemmas below relate them to the definitions above.
\<close>

definition blank_lines :: "ustr list \<Rightarrow> ustr list" where
  "blank_lines ls = map (\<lambda>l. if list_all is_blank l then [] else l) ls"

definition margin_of :: "ustr list \<Rightarrow> ustr option" where
  "margin_of ls = foldl update_margin None
     (map (takeWhile is_blank) (filter (\<lambda>l. \<not> list_all is_blank l) ls))"

definition cut_margin :: "ustr \<Rightarrow> ustr \<Rightarrow> ustr" where
  "cut_margin m l = (if prefix m l then drop (length m) l else l)"

definition dedent_lines :: "ustr list \<Rightarrow> ustr list" where
  "dedent_lines ls =
     (case margin_of (blank_lines ls) of
        None \<Rightarrow> blank_lines ls
      | Some m \<Rightarrow> if m \<noteq> [] then map (cut_margin m) (blank_lines ls) else blank_lines ls)"

definition template_lines :: "'t story_request \<Rightarrow> ustr list" where
  "template_lines r =
     [[],
      ind8 @ body_write (language r),
      ind8 @ body_requirements,
      ind8 @ body_genre (genre r),
      ind8 @ body_characters (protagonist1 r) (protagonist2 r),
      ind8 @ body_hook,
      ind8 @ body_arc,
      ind8 @ body_show,
      ind8 @ body_pacing,
      ind8 @ body_tone,
      ind8 @ body_length (target_words r),
      ind8 @ body_end,
      [],
      ind8 @ body_backstory,
      ind8 @ strip (premise r),
      ind8]"

definition single_line_prompt :: "'t story_request \<Rightarrow> ustr" where
  "single_line_prompt r =
     body_write (language r) @ 10 #
     body_requirements @ 10 #
     body_genre (genre r) @ 10 #
     body_characters (protagonist1 r) (protagonist2 r) @ 10 #
     body_hook @ 10 #
     body_arc @ 10 #
     body_show @ 10 #
     body_pacing @ 10 #
     body_tone @ 10 #
     body_length (target_words r) @ 10 #
     body_end @ 10 #
     10 #
     body_backstory @ 10 #
     strip (premise r)"

definition text_line :: "ustr \<Rightarrow> bool" where
  "text_line b \<longleftrightarrow> b \<noteq> [] \<and> \<not> is_blank (hd b)"

section \<open>Scenarios\<close>

text \<open>
  The specification's end-to-end scenario; states with a secrets file and the key in
  both sources, in the environment only and in neither; states without a secrets file,
  with and without the key in the environment; and two stub services.
\<close>

definition scenario_request :: "rat story_request" where
  "scenario_request =
     \<lparr>protagonist1 = [51648, 50864], protagonist2 = [48124, 49436],
      genre = [54032, 53440, 51648],
      premise = [50724, 47000, 46108, 32, 44032, 44172, 46, 46, 46],
      language = [54620, 44397, 50612], target_words = 1200, temperature = 9 / 10,
      model = ascii ''gpt-4o-mini''\<rparr>"

definition scenario_form :: "rat form" where
  "scenario_form =
     \<lparr>f_protagonist1 = [51648, 50864], f_protagonist2 = [48124, 49436],
      f_genre = [54032, 53440, 51648],
      f_premise = [50724, 47000, 46108, 32, 44032, 44172, 46, 46, 46],
      f_default_lang = [54620, 44397, 50612], f_target_words = 1200, f_temperature = 9 / 10,
      f_model = ascii ''gpt-4o-mini'', f_cta = True\<rparr>"

definition no_secrets_message :: ustr where
  "no_secrets_message = ascii ''No secrets found.''"

definition world_both :: "sdk \<Rightarrow> rat world" where
  "world_both s =
     \<lparr>secrets = SecretsFile [OPENAI_API_KEY \<mapsto> ascii ''sk-from-secrets''],
      secrets_parsed = False,
      environ = [OPENAI_API_KEY \<mapsto> ascii ''sk-from-env''],
      sdk_style = s, openai_api_key = None, trace = []\<rparr>"

definition world_env_only :: "sdk \<Rightarrow> rat world" where
  "world_env_only s =
     \<lparr>secrets = SecretsFile Map.empty, secrets_parsed = False,
      environ = [OPENAI_API_KEY \<mapsto> ascii ''sk-from-env''],
      sdk_style = s, openai_api_key = None, trace = []\<rparr>"

definition world_no_key :: "sdk \<Rightarrow> rat world" where
  "world_no_key s =
     \<lparr>secrets = SecretsFile Map.empty, secrets_parsed = False, environ = Map.empty,
      sdk_style = s, openai_api_key = None, trace = []\<rparr>"

definition world_no_file_env :: "sdk \<Rightarrow> rat world" where
  "world_no_file_env s =
     \<lparr>secrets = NoSecretsFile no_secrets_message, secrets_parsed = False,
      environ = [OPENAI_API_KEY \<mapsto> ascii ''sk-from-env''],
      sdk_style = s, openai_api_key = None, trace = []\<rparr>"


definition echo_backend :: "rat backend" where
  "echo_backend = (\<lambda>k rq. ApiResponse [Some (ascii '' THE END.'' @ [10])])"

definition failing_backend :: "rat backend" where
  "failing_backend = (\<lambda>k rq. ApiRaises (ascii ''Connection error.''))"

section \<open>The handler's call\<close>

text \<open>
  The arguments the handler passes to \<open>generate_novel\<close> (lines 188 to 197), and its
  validation \<open>not protagonist1 or not protagonist2 or not premise\<close> negated.
\<close>

definition submitted :: "'t form \<Rightarrow> 't story_request" where
  "submitted f =
     \<lparr>protagonist1 = strip (f_protagonist1 f), protagonist2 = strip (f_protagonist2 f),
      genre = f_genre f, premise = f_premise f, language = f_default_lang f,
      target_words = f_target_words f, temperature = f_temperature f, model = f_model f\<rparr>"

definition form_complete :: "'t form \<Rightarrow> bool" where
  "form_complete f \<longleftrightarrow> f_protagonist1 f \<noteq> [] \<and> f_protagonist2 f \<noteq> [] \<and> f_premise f \<noteq> []"

section \<open>A premise of two paragraphs\<close>

text \<open>
  A request whose premise names both characters and has two paragraphs, separated by a
  line that holds two spaces; the lines of its template, and the prompt it yields.
\<close>

definition two_part_premise :: ustr where
  "two_part_premise = ascii ''Jiwoo meets Minseo.'' @ [10] @ ascii ''  '' @ [10] @ ascii ''They part.''"

definition two_part_request :: "rat story_request" where
  "two_part_request =
     \<lparr>protagonist1 = ascii ''Jiwoo'', protagonist2 = ascii ''Minseo'', genre = ascii ''SF'',
      premise = two_part_premise, language = ascii ''English'', target_words = 1200,
      temperature = 9 / 10, model = ascii ''gpt-4o-mini''\<rparr>"

definition two_part_lines :: "ustr list" where
  "two_part_lines =
     [[],
      ind8 @ body_write (ascii ''English''),
      ind8 @ body_requirements,
      ind8 @ body_genre (ascii ''SF''),
      ind8 @ body_characters (ascii ''Jiwoo'') (ascii ''Minseo''),
      ind8 @ body_hook,
      ind8 @ body_arc,
      ind8 @ body_show,
      ind8 @ body_pacing,
      ind8 @ body_tone,
      ind8 @ body_length 1200,
      ind8 @ body_end,
      [],
      ind8 @ body_backstory,
      ind8 @ ascii ''Jiwoo meets Minseo.'',
      ascii ''  '',
      ascii ''They part.'',
      ind8]"

definition two_part_prompt :: ustr where
  "two_part_prompt =
     body_write (ascii ''English'') @ 10 #
     ind8 @ body_requirements @ 10 #
     ind8 @ body_genre (ascii ''SF'') @ 10 #
     ind8 @ body_characters (ascii ''Jiwoo'') (ascii ''Minseo'') @ 10 #
     ind8 @ body_hook @ 10 #
     ind8 @ body_arc @ 10 #
     ind8 @ body_show @ 10 #
     ind8 @ body_pacing @ 10 #
     ind8 @ body_tone @ 10 #
     ind8 @ body_length 1200 @ 10 #
     ind8 @ body_end @ 10 #
     10 #
     ind8 @ body_backstory @ 10 #
     ind8 @ ascii ''Jiwoo meets Minseo.'' @ 10 #
     10 #
     ascii ''They part.''"

section \<open>The sources across operations\<close>

text \<open>
  The state after one key lookup, and how the secrets store, its parsed flag and the
  environment of a later state relate to an earlier one: the store is the same, and the
  environment is the same or, if the store had not been parsed and has been since, the
  old one overwritten with the store's entries.
\<close>

definition after_lookup :: "'t world \<Rightarrow> 't world" where
  "after_lookup w = snd (st_secrets (emit [KeyLookup] w))"

definition sources_step :: "'t world \<Rightarrow> 't world \<Rightarrow> bool" where
  "sources_step w w' \<longleftrightarrow>
     secrets w' = secrets w \<and>
     (case secrets w of
        NoSecretsFile msg \<Rightarrow> secrets_parsed w' = secrets_parsed w \<and> environ w' = environ w
      | SecretsFile m \<Rightarrow>
          (secrets_parsed w' = secrets_parsed w \<and> environ w' = environ w) \<or>
          (\<not> secrets_parsed w \<and> secrets_parsed w' \<and> environ w' = environ w ++ m))"

section \<open>Lemmas\<close>

subsection \<open>Lines of a text\<close>

text \<open>
  Splitting and joining are inverse on lists of lines without line feeds, so \<open>dedent\<close> can be computed line by line.
\<close>

lemma split_nl_not_Nil: "split_nl s \<noteq> []"
  by (induction s) (auto split: list.splits)

lemma split_nl_line: "10 \<notin> set a \<Longrightarrow> split_nl a = [a]"
  by (induction a) auto

lemma split_nl_append: "10 \<notin> set a \<Longrightarrow> split_nl (a @ 10 # b) = a # split_nl b"
  by (induction a) auto

lemma split_join_nl:
  "ls \<noteq> [] \<Longrightarrow> \<forall>l\<in>set ls. 10 \<notin> set l \<Longrightarrow> split_nl (join_nl ls) = ls"
proof (induction ls rule: join_nl.induct)
  case 1
  then show ?case by simp
next
  case (2 l)
  then show ?case by (simp add: split_nl_line)
next
  case (3 l v va)
  then show ?case by (simp add: split_nl_append)
qed

lemma blank_lines_no_nl:
  "\<forall>l\<in>set ls. 10 \<notin> set l \<Longrightarrow> \<forall>l\<in>set (blank_lines ls). 10 \<notin> set l"
  by (auto simp: blank_lines_def)

lemma blank_lines_not_Nil: "ls \<noteq> [] \<Longrightarrow> blank_lines ls \<noteq> []"
  by (simp add: blank_lines_def)

lemma dedent_join_nl:
  assumes "ls \<noteq> []" and "\<forall>l\<in>set ls. 10 \<notin> set l"
  shows "dedent (join_nl ls) = join_nl (dedent_lines ls)"
proof -
  have w: "whitespace_only_sub (join_nl ls) = join_nl (blank_lines ls)"
    using assms by (simp add: whitespace_only_sub_def split_join_nl blank_lines_def)
  have s: "split_nl (join_nl (blank_lines ls)) = blank_lines ls"
    using assms by (intro split_join_nl blank_lines_no_nl blank_lines_not_Nil)
  have m: "foldl update_margin None (leading_whitespace (join_nl (blank_lines ls)))
            = margin_of (blank_lines ls)"
    by (simp add: leading_whitespace_def s margin_of_def)
  have r: "remove_margin m (join_nl (blank_lines ls)) = join_nl (map (cut_margin m) (blank_lines ls))" for m
    by (simp add: remove_margin_def s cut_margin_def [abs_def])
  show ?thesis
    by (simp add: dedent_def w m r dedent_lines_def Let_def split: option.splits)
qed

subsection \<open>strip\<close>

lemma isspace_strip_ends:
  assumes "strip s \<noteq> []"
  shows "\<not> isspace (hd (strip s))" and "\<not> isspace (last (strip s))"
proof -
  let ?t = "dropWhile isspace s"
  let ?u = "dropWhile isspace (rev ?t)"
  from assms have u: "?u \<noteq> []" by (simp add: strip_def)
  have t: "?t \<noteq> []"
  proof
    assume e: "?t = []"
    have "?u = []" unfolding e by simp
    with u show False by simp
  qed
  have "last (strip s) = hd ?u" using u by (simp add: strip_def last_rev)
  moreover have "\<not> isspace (hd ?u)" using u by (rule hd_dropWhile)
  ultimately show "\<not> isspace (last (strip s))" by simp
  obtain ws where ws: "rev ?t = ws @ ?u" by (metis takeWhile_dropWhile_id)
  have "hd (strip s) = last ?u" using u by (simp add: strip_def hd_rev)
  also have "\<dots> = last (rev ?t)" using u ws by (metis last_appendR)
  also have "\<dots> = hd ?t" using t by (simp add: last_rev)
  finally show "\<not> isspace (hd (strip s))" using hd_dropWhile [OF t] by simp
qed

lemma strip_framed:
  assumes "s \<noteq> []" "\<not> isspace (hd s)" "\<not> isspace (last s)"
  shows "strip (10 # s @ [10]) = s"
proof -
  have sp: "isspace 10" by (simp add: isspace_def)
  have a: "dropWhile isspace (10 # s @ [10]) = s @ [10]"
    using assms sp by (cases s) auto
  have b: "dropWhile isspace (rev (s @ [10])) = rev s"
    using assms sp by (cases s rule: rev_cases) auto
  show ?thesis by (simp only: strip_def a b rev_rev_ident)
qed

subsection \<open>dedent on the template\<close>

text \<open>
  When no field holds a line feed, every line of the template is the indentation followed by text, the margin is the indentation, and the prompt has a closed form.
\<close>

lemma template_join: "template r = join_nl (template_lines r)"
  by (simp add: template_def template_lines_def)

lemma ind8_blank: "list_all is_blank ind8"
  by (simp add: ind8_def ascii_def is_blank_def)

lemma ind8_not_Nil: "ind8 \<noteq> []"
  by (simp add: ind8_def ascii_def)

lemma ind8_no_nl: "10 \<notin> set ind8"
  by (simp add: ind8_def ascii_def)

lemma ind8_line_not_blank: "text_line b \<Longrightarrow> list_all is_blank b = False"
  by (cases b) (auto simp: text_line_def)

lemma ind8_line_indent: "text_line b \<Longrightarrow> takeWhile is_blank (ind8 @ b) = ind8"
  using ind8_blank by (cases b) (auto simp: text_line_def takeWhile_append2 list_all_iff)

lemma cut_margin_ind8: "cut_margin ind8 (ind8 @ b) = b"
  by (simp add: cut_margin_def)

lemma cut_margin_Nil: "m \<noteq> [] \<Longrightarrow> cut_margin m [] = []"
  by (simp add: cut_margin_def)

lemma update_margin_same: "update_margin (Some m) m = Some m"
  by (simp add: update_margin_def)

lemma update_margin_None: "update_margin None m = Some m"
  by (simp add: update_margin_def)

lemma text_line_fixed:
  "text_line body_requirements" "text_line body_hook" "text_line body_arc"
  "text_line body_show" "text_line body_pacing" "text_line body_tone" "text_line body_end"
  "text_line body_backstory"
  by (simp_all add: text_line_def is_blank_def ascii_def body_requirements_def body_hook_def
      body_arc_def body_show_def body_pacing_def body_tone_def body_end_def body_backstory_def)

lemma text_line_fields:
  "text_line (body_write lang)" "text_line (body_genre g)" "text_line (body_characters p1 p2)"
  "text_line (body_length n)"
  by (simp_all add: text_line_def is_blank_def ascii_def body_write_def body_genre_def
      body_characters_def body_length_def)

lemma is_blank_isspace: "is_blank c \<Longrightarrow> isspace c"
  by (auto simp: is_blank_def isspace_def)

lemma text_line_strip: "strip s \<noteq> [] \<Longrightarrow> text_line (strip s)"
  using isspace_strip_ends(1) [of s] is_blank_isspace by (auto simp: text_line_def)

lemma dedent_lines_template:
  assumes "strip (premise r) \<noteq> []"
  shows "dedent_lines (template_lines r) =
     [[], body_write (language r), body_requirements, body_genre (genre r),
      body_characters (protagonist1 r) (protagonist2 r), body_hook, body_arc, body_show,
      body_pacing, body_tone, body_length (target_words r), body_end, [], body_backstory,
      strip (premise r), []]"
proof -
  note tl = text_line_fixed text_line_fields text_line_strip [OF assms]
  have b: "blank_lines (template_lines r) = (template_lines r) [15 := []]"
    by (simp add: blank_lines_def template_lines_def ind8_line_not_blank tl ind8_blank)
  have m: "margin_of ((template_lines r) [15 := []]) = Some ind8"
    by (simp add: margin_of_def template_lines_def ind8_line_not_blank ind8_line_indent tl
        update_margin_same update_margin_None)
  show ?thesis
    by (simp add: dedent_lines_def b m ind8_not_Nil)
      (simp add: template_lines_def cut_margin_ind8 cut_margin_Nil ind8_not_Nil)
qed

lemma digits10_range: "set (digits10 n) \<subseteq> {48..57}"
proof (induction n rule: digits10.induct)
  case (1 n)
  show ?case
  proof (cases "n < 10")
    case True
    then show ?thesis by (subst digits10.simps) simp
  next
    case False
    have "n mod 10 < 10" by simp
    then have "48 + n mod 10 \<in> {48..57}" by simp
    with False 1 show ?thesis by (subst digits10.simps) simp
  qed
qed

lemma str_int_no_nl: "10 \<notin> set (str_int n)"
  using digits10_range [of "nat n"] digits10_range [of "nat (- n)"]
  by (auto simp: str_int_def)

lemma no_nl_fixed:
  "10 \<notin> set body_requirements" "10 \<notin> set body_hook" "10 \<notin> set body_arc"
  "10 \<notin> set body_show" "10 \<notin> set body_pacing" "10 \<notin> set body_tone" "10 \<notin> set body_end"
  "10 \<notin> set body_backstory"
  by (simp_all add: ascii_def body_requirements_def body_hook_def
      body_arc_def body_show_def body_pacing_def body_tone_def body_end_def body_backstory_def)

lemma no_nl_fields:
  "10 \<notin> set lang \<Longrightarrow> 10 \<notin> set (body_write lang)"
  "10 \<notin> set g \<Longrightarrow> 10 \<notin> set (body_genre g)"
  "10 \<notin> set p1 \<Longrightarrow> 10 \<notin> set p2 \<Longrightarrow> 10 \<notin> set (body_characters p1 p2)"
  "10 \<notin> set (body_length n)"
  by (simp_all add: ascii_def body_write_def body_genre_def body_characters_def body_length_def
      str_int_no_nl)

lemma template_lines_no_nl:
  assumes "10 \<notin> set (language r)" "10 \<notin> set (genre r)" "10 \<notin> set (protagonist1 r)"
    "10 \<notin> set (protagonist2 r)" "10 \<notin> set (strip (premise r))"
  shows "\<forall>l\<in>set (template_lines r). 10 \<notin> set l"
  using assms by (simp add: template_lines_def ind8_no_nl no_nl_fixed no_nl_fields)

lemma hd_body_write: "hd (body_write lang) = 87" "body_write lang \<noteq> []"
  by (simp_all add: body_write_def ascii_def)

lemma style_guide_single_line:
  assumes "10 \<notin> set (language r)" "10 \<notin> set (genre r)" "10 \<notin> set (protagonist1 r)"
    "10 \<notin> set (protagonist2 r)" "10 \<notin> set (strip (premise r))" "strip (premise r) \<noteq> []"
  shows "style_guide r = single_line_prompt r"
proof -
  have ne: "template_lines r \<noteq> []" by (simp add: template_lines_def)
  have d: "dedent (template r) = join_nl (dedent_lines (template_lines r))"
    unfolding template_join
    by (rule dedent_join_nl [OF ne template_lines_no_nl [OF assms(1-5)]])
  have j: "join_nl (dedent_lines (template_lines r)) = 10 # single_line_prompt r @ [10]"
    by (simp add: dedent_lines_template [OF assms(6)] single_line_prompt_def)
  have n: "single_line_prompt r \<noteq> []"
    by (simp add: single_line_prompt_def)
  have h: "hd (single_line_prompt r) = 87"
    by (simp add: single_line_prompt_def hd_append hd_body_write)
  have l: "last (single_line_prompt r) = last (strip (premise r))"
    using assms(6) by (simp add: single_line_prompt_def)
  have "strip (10 # single_line_prompt r @ [10]) = single_line_prompt r"
  proof (rule strip_framed [OF n])
    show "\<not> isspace (hd (single_line_prompt r))" by (simp add: h isspace_def)
    show "\<not> isspace (last (single_line_prompt r))"
      using isspace_strip_ends(2) [OF assms(6)] by (simp add: l)
  qed
  then show ?thesis by (simp add: style_guide_def d j)
qed

subsection \<open>The effect of the operations\<close>

lemma emit_emit: "emit es (emit ds w) = emit (ds @ es) w"
  by (simp add: emit_def)

lemma emit_fields [simp]:
  "secrets (emit es w) = secrets w" "environ (emit es w) = environ w"
  "secrets_parsed (emit es w) = secrets_parsed w"
  "sdk_style (emit es w) = sdk_style w" "openai_api_key (emit es w) = openai_api_key w"
  "trace (emit es w) = trace w @ es"
  by (simp_all add: emit_def)

lemma after_lookup_fields [simp]:
  "secrets (after_lookup w) = secrets w" "sdk_style (after_lookup w) = sdk_style w"
  "openai_api_key (after_lookup w) = openai_api_key w"
  "trace (after_lookup w) = trace w @ [KeyLookup]"
  by (simp_all add: after_lookup_def st_secrets_def split: secrets_store.splits)

lemma get_api_key_world: "snd (get_api_key w) = after_lookup w"
  by (simp add: get_api_key_def after_lookup_def split: prod.splits sum.splits option.splits)

lemma get_api_key_eq: "fst (get_api_key w) = x \<Longrightarrow> get_api_key w = (x, after_lookup w)"
  using get_api_key_world [of w] by (cases "get_api_key w") simp

lemma sources_step_refl [simp]: "sources_step w w"
  by (simp add: sources_step_def split: secrets_store.splits)

lemma sources_step_trans:
  "sources_step w w1 \<Longrightarrow> sources_step w1 w2 \<Longrightarrow> sources_step w w2"
  by (auto simp: sources_step_def split: secrets_store.splits)

lemma sources_step_emit [simp]: "sources_step w (emit es w') = sources_step w w'"
  by (simp add: sources_step_def split: secrets_store.splits)

lemma sources_step_key_update [simp]:
  "sources_step w (w'\<lparr>openai_api_key := k\<rparr>) = sources_step w w'"
  by (simp add: sources_step_def split: secrets_store.splits)

lemma sources_step_lookup: "sources_step w (after_lookup w)"
  by (simp add: sources_step_def after_lookup_def st_secrets_def split: secrets_store.splits)

lemma get_api_key_with_secrets_file:
  assumes "secrets w = SecretsFile m"
  shows "(m OPENAI_API_KEY = Some v \<longrightarrow> fst (get_api_key w) = Inr (Some v)) \<and>
         (m OPENAI_API_KEY = None \<longrightarrow> fst (get_api_key w) = Inr (environ w OPENAI_API_KEY))"
  using assms by (simp add: get_api_key_def st_secrets_def map_add_def)

lemma get_api_key_no_secrets_file:
  "secrets w = NoSecretsFile msg \<Longrightarrow> fst (get_api_key w) = Inl (StreamlitSecretNotFoundError msg)"
  by (simp add: get_api_key_def st_secrets_def)

lemma falsy_cases: "falsy x \<or> (\<exists>k. x = Some k \<and> k \<noteq> [])"
  by (cases x) (auto simp: falsy_def)

lemma lookup_cases:
  obtains (raises) e where "fst (get_api_key w) = Inl e"
  | (none) x where "fst (get_api_key w) = Inr x" "falsy x"
  | (key) k where "fst (get_api_key w) = Inr (Some k)" "k \<noteq> []"
  using falsy_cases by (cases "fst (get_api_key w)") auto

lemma generate_novel_raises:
  assumes "fst (get_api_key w) = Inl e"
  shows "generate_novel api r w = (Inl e, after_lookup w)"
  by (simp add: generate_novel_def get_client_def get_api_key_eq [OF assms])

lemma generate_novel_no_key:
  assumes "fst (get_api_key w) = Inr x" and "falsy x"
  shows "generate_novel api r w = (Inl StopException, after_lookup w)"
  using assms(2)
  by (auto simp: generate_novel_def get_client_def get_api_key_eq [OF assms(1)] falsy_def
      split: option.splits)

lemma generate_novel_new:
  assumes "fst (get_api_key w) = Inr (Some k)" and "k \<noteq> []" and "sdk_style w = New"
  shows "generate_novel api r w =
     new_sdk_path api (Some (OpenAI k)) r (style_guide r) (after_lookup w)"
  using assms(2,3)
  by (simp add: generate_novel_def get_client_def get_api_key_eq [OF assms(1)])

lemma generate_novel_legacy:
  assumes "fst (get_api_key w) = Inr (Some k)" and "k \<noteq> []" and "sdk_style w = Legacy"
  shows "generate_novel api r w =
     legacy_sdk_path api r (style_guide r) ((after_lookup w)\<lparr>openai_api_key := Some k\<rparr>)"
  using assms(2,3)
  by (simp add: generate_novel_def get_client_def get_api_key_eq [OF assms(1)])

lemma new_request: "new_sdk_path api (Some (OpenAI k)) r (style_guide r) w =
  (case api (Some k) (outbound_request r) of
     ApiRaises e \<Rightarrow> Inl (RuntimeError (ascii ''OpenAI API error: '' @ e))
   | ApiResponse [] \<Rightarrow> Inl (RuntimeError (ascii ''OpenAI API error: list index out of range''))
   | ApiResponse (None # cs) \<Rightarrow> Inl (RuntimeError (ascii ''OpenAI API error: '' @ [39] @ ascii ''NoneType'' @ [39]
                @ ascii '' object has no attribute '' @ [39] @ ascii ''strip'' @ [39]))
   | ApiResponse (Some c # cs) \<Rightarrow> Inr (strip c),
   emit [ApiCall New (Some k) (outbound_request r)] w)"
  by (simp add: new_sdk_path_def outbound_request_def system_instruction_def Let_def ascii_def
      split: api_result.splits list.splits option.splits)

lemma legacy_request: "legacy_sdk_path api r (style_guide r) w =
  (case api (openai_api_key w) (outbound_request r) of
     ApiRaises e \<Rightarrow> Inl (RuntimeError (ascii ''OpenAI API error: '' @ e))
   | ApiResponse [] \<Rightarrow> Inl (RuntimeError (ascii ''OpenAI API error: list index out of range''))
   | ApiResponse (None # cs) \<Rightarrow> Inl (RuntimeError (ascii ''OpenAI API error: '' @ [39] @ ascii ''NoneType'' @ [39]
                @ ascii '' object has no attribute '' @ [39] @ ascii ''strip'' @ [39]))
   | ApiResponse (Some c # cs) \<Rightarrow> Inr (strip c),
   emit [ApiCall Legacy (openai_api_key w) (outbound_request r)] w)"
  by (simp add: legacy_sdk_path_def outbound_request_def system_instruction_def Let_def ascii_def
      split: api_result.splits list.splits option.splits)

lemma generate_novel_cases:
  assumes "fst (get_api_key w) = Inr (Some k)" and "k \<noteq> []"
  shows "generate_novel api r w =
     (case api (Some k) (outbound_request r) of
        ApiRaises e \<Rightarrow> Inl (RuntimeError (ascii ''OpenAI API error: '' @ e))
      | ApiResponse [] \<Rightarrow> Inl (RuntimeError (ascii ''OpenAI API error: list index out of range''))
      | ApiResponse (None # cs) \<Rightarrow>
          Inl (RuntimeError (ascii ''OpenAI API error: '' @ [39] @ ascii ''NoneType'' @ [39]
                @ ascii '' object has no attribute '' @ [39] @ ascii ''strip'' @ [39]))
      | ApiResponse (Some c # cs) \<Rightarrow> Inr (strip c),
      (if sdk_style w = New
       then emit [ApiCall New (Some k) (outbound_request r)] (after_lookup w)
       else emit [ApiCall Legacy (Some k) (outbound_request r)]
              ((after_lookup w)\<lparr>openai_api_key := Some k\<rparr>)))"
proof (cases "sdk_style w")
  case New
  then show ?thesis
    by (simp add: generate_novel_new [OF assms New] new_request)
next
  case Legacy
  then show ?thesis
    by (simp add: generate_novel_legacy [OF assms Legacy] legacy_request)
qed

lemma api_calls_emit: "api_calls (emit es w) = api_calls w @ filter is_api_call es"
  by (simp add: api_calls_def)

lemma api_calls_key_update [simp]: "api_calls (w\<lparr>openai_api_key := k\<rparr>) = api_calls w"
  by (simp add: api_calls_def)

lemma api_calls_lookup [simp]: "api_calls (after_lookup w) = api_calls w"
  by (simp add: api_calls_def)

lemma api_calls_generate_novel:
  assumes "fst (get_api_key w) = Inr (Some k)" and "k \<noteq> []"
  shows "api_calls (snd (generate_novel api r w)) =
           api_calls w @ [ApiCall (sdk_style w) (Some k) (outbound_request r)]"
  by (cases "sdk_style w") (simp_all add: generate_novel_cases [OF assms] api_calls_emit)

lemma key_lookups_emit: "key_lookups (emit es w) = key_lookups w + length (filter is_key_lookup es)"
  by (simp add: key_lookups_def)

lemma key_lookups_key_update [simp]: "key_lookups (w\<lparr>openai_api_key := k\<rparr>) = key_lookups w"
  by (simp add: key_lookups_def)

lemma key_lookups_lookup [simp]: "key_lookups (after_lookup w) = key_lookups w + 1"
  by (simp add: key_lookups_def)

lemma generate_novel_effect:
  "sources_step w (snd (generate_novel api r w)) \<and>
   sdk_style (snd (generate_novel api r w)) = sdk_style w \<and>
   key_lookups (snd (generate_novel api r w)) = key_lookups w + 1 \<and>
   (list_all (call_shape_ok (sdk_style w)) (trace w) \<longrightarrow>
      list_all (call_shape_ok (sdk_style w)) (trace (snd (generate_novel api r w))))"
proof (cases w rule: lookup_cases)
  case (raises e)
  then show ?thesis
    by (simp add: generate_novel_raises sources_step_lookup)
next
  case (none x)
  then show ?thesis
    by (simp add: generate_novel_no_key sources_step_lookup)
next
  case (key k)
  then show ?thesis
    by (cases "sdk_style w")
       (simp_all add: generate_novel_cases key_lookups_emit sources_step_lookup)
qed

lemma on_submit_cases:
  "on_submit api f w =
     (if \<not> f_cta f then (Inr (), w)
      else case fst (get_api_key w) of
        Inl e \<Rightarrow> (Inl e, after_lookup w)
      | Inr api_key \<Rightarrow>
          if falsy api_key then (Inl StopException, emit [UiError msg_no_key] (after_lookup w))
          else if \<not> form_complete f
          then (Inl StopException, emit [UiWarning msg_incomplete] (after_lookup w))
          else
            (case generate_novel api (submitted f) (after_lookup w) of
               (Inl (RuntimeError m), w2) \<Rightarrow> (Inl StopException, emit [UiError m] w2)
             | (Inl (StreamlitSecretNotFoundError m), w2) \<Rightarrow>
                 (Inl StopException, emit [UiError m] w2)
             | (Inl StopException, w2) \<Rightarrow> (Inl StopException, w2)
             | (Inr story, w2) \<Rightarrow>
                 (Inr (),
                  emit [UiSuccess msg_done,
                        UiSubheader msg_story,
                        UiDownload
                          (ascii ''novel_'' @ f_protagonist1 f @ ascii ''_'' @ f_protagonist2 f
                             @ ascii ''.txt'')
                          story,
                        UiMarkdown (ascii ''---''),
                        UiMarkdown story] w2)))"
proof (cases "fst (get_api_key w)")
  case (Inl e)
  show ?thesis
    by (simp add: on_submit_def get_api_key_eq [OF Inl] Inl)
next
  case (Inr api_key)
  show ?thesis
    by (simp add: on_submit_def get_api_key_eq [OF Inr] Inr submitted_def form_complete_def)
qed

lemma on_submit_effect:
  "sources_step w (snd (on_submit api f w)) \<and>
   sdk_style (snd (on_submit api f w)) = sdk_style w \<and>
   key_lookups (snd (on_submit api f w)) = key_lookups w +
     (if \<not> f_cta f then 0
      else case fst (get_api_key w) of
             Inl e \<Rightarrow> 1
           | Inr api_key \<Rightarrow> if falsy api_key \<or> \<not> form_complete f then 1 else 2) \<and>
   (list_all (call_shape_ok (sdk_style w)) (trace w) \<longrightarrow>
      list_all (call_shape_ok (sdk_style w)) (trace (snd (on_submit api f w))))"
proof -
  let ?w1 = "after_lookup w"
  obtain res w2 where g: "generate_novel api (submitted f) ?w1 = (res, w2)"
    by (cases "generate_novel api (submitted f) ?w1")
  have w2: "snd (generate_novel api (submitted f) ?w1) = w2" by (simp add: g)
  note e = generate_novel_effect [of ?w1 api "submitted f", unfolded w2]
  have s: "sources_step w w2"
    using sources_step_trans [OF sources_step_lookup [of w]] e by blast
  have c: "list_all (call_shape_ok (sdk_style w)) (trace w) \<Longrightarrow>
           list_all (call_shape_ok (sdk_style w)) (trace w2)"
    using e by simp
  have k: "key_lookups w2 = key_lookups w + 2" and y: "sdk_style w2 = sdk_style w"
    using e by simp_all
  show ?thesis
    unfolding on_submit_cases
    using s c k y
    by (auto simp: g key_lookups_emit sources_step_lookup split: sum.splits error.splits)
qed

lemma get_client_world:
  "snd (get_client w) = after_lookup w \<or>
   (\<exists>k. snd (get_client w) = (after_lookup w)\<lparr>openai_api_key := Some k\<rparr>)"
proof (cases "fst (get_api_key w)")
  case (Inl e)
  show ?thesis
    by (simp add: get_client_def get_api_key_eq [OF Inl])
next
  case (Inr api_key)
  show ?thesis
    by (auto simp: get_client_def get_api_key_eq [OF Inr] split: option.splits)
qed

lemma perform_effect:
  "sources_step w (perform api a w) \<and>
   sdk_style (perform api a w) = sdk_style w \<and>
   (list_all (call_shape_ok (sdk_style w)) (trace w) \<longrightarrow>
      list_all (call_shape_ok (sdk_style w)) (trace (perform api a w)))"
proof (cases a)
  case CallGetApiKey
  then show ?thesis by (simp add: get_api_key_world sources_step_lookup)
next
  case CallGetClient
  then show ?thesis using get_client_world [of w] by (auto simp: sources_step_lookup)
next
  case (CallGenerateNovel r)
  then show ?thesis using generate_novel_effect [of w api r] by simp
next
  case (Submit f)
  then show ?thesis using on_submit_effect [of w api f] by simp
qed


lemma run_sources: "sources_step w (run api acts w)"
proof (induction acts arbitrary: w)
  case Nil
  then show ?case by simp
next
  case (Cons a acts)
  show ?case
    using sources_step_trans [OF _ Cons.IH [of "perform api a w"]] perform_effect [of w api a]
    by simp
qed

lemma missing_credential_with_secrets_file:
  assumes "secrets w = SecretsFile m" and "m OPENAI_API_KEY = None"
    and "environ w OPENAI_API_KEY = None"
  shows "get_client w = (Inl StopException, after_lookup w) \<and>
         generate_novel api r w = (Inl StopException, after_lookup w) \<and>
         (f_cta f \<longrightarrow>
            on_submit api f w = (Inl StopException, emit [UiError msg_no_key] (after_lookup w))) \<and>
         api_calls (after_lookup w) = api_calls w \<and>
         api_calls (emit [UiError msg_no_key] (after_lookup w)) = api_calls w"
proof -
  have k: "fst (get_api_key w) = Inr None"
    using get_api_key_with_secrets_file [OF assms(1)] assms(2,3) by simp
  show ?thesis
    by (simp add: get_client_def get_api_key_eq [OF k] generate_novel_no_key [OF k]
        on_submit_cases k falsy_def api_calls_emit)
qed

lemma scenario_keys:
  "fst (get_api_key (world_both s)) = Inr (Some (ascii ''sk-from-secrets''))"
  "fst (get_api_key (world_env_only s)) = Inr (Some (ascii ''sk-from-env''))"
  "fst (get_api_key (world_no_key s)) = Inr None"
  by (simp_all add: get_api_key_def st_secrets_def emit_def world_both_def world_env_only_def
      world_no_key_def)

subsection \<open>Occurrences in the prompt\<close>

lemma sublist_in_left: "sublist xs ys \<Longrightarrow> sublist xs (ys @ zs)"
  by (meson sublist_append)

lemma sublist_in_right: "sublist xs zs \<Longrightarrow> sublist xs (ys @ zs)"
  by (meson sublist_append)

lemma sublist_in_tail: "sublist xs zs \<Longrightarrow> sublist xs (y # zs)"
  by (simp add: sublist_Cons_right)

lemma occurrences_pos: "0 < occurrences pat s \<longleftrightarrow> sublist pat s"
proof (induction s)
  case Nil
  then show ?case by simp
next
  case (Cons c cs)
  then show ?case by (simp add: sublist_Cons_right)
qed

lemma sublist_segment: "sublist x b \<Longrightarrow> t = p @ b @ s \<Longrightarrow> sublist x t"
  using sublist_in_left sublist_in_right by blast

lemma single_line_prompt_language: "sublist (language r) (single_line_prompt r)"
proof (rule sublist_segment)
  show "sublist (language r) (body_write (language r))"
    by (simp add: body_write_def)
  show "single_line_prompt r = [] @ body_write (language r) @
      (10 # body_requirements @ 10 # body_genre (genre r) @ 10 #
       body_characters (protagonist1 r) (protagonist2 r) @ 10 # body_hook @ 10 # body_arc @ 10 #
       body_show @ 10 # body_pacing @ 10 # body_tone @ 10 # body_length (target_words r) @ 10 #
       body_end @ 10 # 10 # body_backstory @ 10 # strip (premise r))"
    by (simp add: single_line_prompt_def)
qed

lemma single_line_prompt_genre: "sublist (genre r) (single_line_prompt r)"
proof (rule sublist_segment)
  show "sublist (genre r) (body_genre (genre r))"
    by (simp add: body_genre_def)
  show "single_line_prompt r = (body_write (language r) @ 10 # body_requirements @ [10]) @
      body_genre (genre r) @
      (10 # body_characters (protagonist1 r) (protagonist2 r) @ 10 # body_hook @ 10 # body_arc @ 10 #
       body_show @ 10 # body_pacing @ 10 # body_tone @ 10 # body_length (target_words r) @ 10 #
       body_end @ 10 # 10 # body_backstory @ 10 # strip (premise r))"
    by (simp add: single_line_prompt_def)
qed

lemma single_line_prompt_characters:
  "sublist (body_characters (protagonist1 r) (protagonist2 r)) (single_line_prompt r)"
proof (rule sublist_segment)
  show "sublist (body_characters (protagonist1 r) (protagonist2 r))
     (body_characters (protagonist1 r) (protagonist2 r))"
    by simp
  show "single_line_prompt r =
      (body_write (language r) @ 10 # body_requirements @ 10 # body_genre (genre r) @ [10]) @
      body_characters (protagonist1 r) (protagonist2 r) @
      (10 # body_hook @ 10 # body_arc @ 10 #
       body_show @ 10 # body_pacing @ 10 # body_tone @ 10 # body_length (target_words r) @ 10 #
       body_end @ 10 # 10 # body_backstory @ 10 # strip (premise r))"
    by (simp add: single_line_prompt_def)
qed

lemma single_line_prompt_protagonists:
  "sublist (protagonist1 r) (single_line_prompt r)"
  "sublist (protagonist2 r) (single_line_prompt r)"
proof -
  have "sublist (protagonist1 r) (body_characters (protagonist1 r) (protagonist2 r))"
    by (simp add: body_characters_def)
  then show "sublist (protagonist1 r) (single_line_prompt r)"
    using single_line_prompt_characters sublist_order.order.trans by blast
  have "sublist (protagonist2 r) (body_characters (protagonist1 r) (protagonist2 r))"
    unfolding body_characters_def by (intro sublist_in_right) simp
  then show "sublist (protagonist2 r) (single_line_prompt r)"
    using single_line_prompt_characters sublist_order.order.trans by blast
qed

lemma single_line_prompt_premise: "sublist (strip (premise r)) (single_line_prompt r)"
  unfolding single_line_prompt_def
  by (rule sublist_in_right sublist_in_tail)+ simp

lemmas single_line_prompt_contains =
  single_line_prompt_language single_line_prompt_genre single_line_prompt_protagonists
  single_line_prompt_premise

lemma genres_no_nl: "g \<in> set genres \<Longrightarrow> 10 \<notin> set g"
  by (auto simp: genres_def ascii_def)

lemma languages_no_nl: "l \<in> set languages \<Longrightarrow> 10 \<notin> set l"
  by (auto simp: languages_def ascii_def)

lemma scenario_valid: "valid_request scenario_request"
  by (simp add: valid_request_def scenario_request_def strip_def isspace_def genres_def
        languages_def models_def ascii_def)

lemma scenario_no_nl:
  "10 \<notin> set (protagonist1 scenario_request)" "10 \<notin> set (protagonist2 scenario_request)"
  "10 \<notin> set (strip (premise scenario_request))"
  by (simp_all add: scenario_request_def strip_def isspace_def)

subsection \<open>The prompt for the premise of two paragraphs\<close>

text \<open>
  The last line of the premise has no indentation, so the margin is empty and the template keeps its indentation; the line of two spaces is emptied.
\<close>

lemma two_part_strip: "strip two_part_premise = two_part_premise"
  by (simp add: two_part_premise_def strip_def isspace_def ascii_def)

lemma two_part_template: "template two_part_request = join_nl two_part_lines"
  by (simp add: template_def two_part_request_def two_part_strip two_part_lines_def)
     (simp add: two_part_premise_def)

lemma two_part_lines_no_nl: "\<forall>l\<in>set two_part_lines. 10 \<notin> set l"
  by (simp add: two_part_lines_def ind8_no_nl no_nl_fixed no_nl_fields ascii_def)

lemma two_part_dedent_lines:
  "dedent_lines two_part_lines = two_part_lines [15 := [], 17 := []]"
proof -
  note tl = text_line_fixed text_line_fields
  have t1: "text_line (ascii ''Jiwoo meets Minseo.'')" and t2: "text_line (ascii ''They part.'')"
    by (simp_all add: text_line_def ascii_def is_blank_def)
  have b2: "list_all is_blank (ascii ''  '')" by (simp add: ascii_def is_blank_def)
  have i2: "takeWhile is_blank (ascii ''They part.'') = []"
    by (simp add: ascii_def is_blank_def)
  have b: "blank_lines two_part_lines = two_part_lines [15 := [], 17 := []]"
    by (simp add: blank_lines_def two_part_lines_def ind8_line_not_blank tl t1 t2 b2 ind8_blank)
  have u: "update_margin (Some ind8) [] = Some []"
    by (simp add: update_margin_def ind8_not_Nil)
  have m: "margin_of (two_part_lines [15 := [], 17 := []]) = Some []"
    by (simp add: margin_of_def two_part_lines_def ind8_line_not_blank ind8_line_indent tl t1 t2
        i2 update_margin_same update_margin_None u)
  show ?thesis
    by (simp add: dedent_lines_def b m)
qed

lemma strip_ind8_framed:
  assumes "s \<noteq> []" "\<not> isspace (hd s)" "\<not> isspace (last s)"
  shows "strip (10 # ind8 @ s @ [10]) = s"
proof -
  have sp: "isspace 10" by (simp add: isspace_def)
  have "\<forall>c\<in>set ind8. isspace c" by (simp add: ind8_def ascii_def isspace_def)
  then have "dropWhile isspace (ind8 @ s @ [10]) = dropWhile isspace (s @ [10])"
    by (simp add: dropWhile_append2)
  also have "\<dots> = s @ [10]"
    using assms(1,2) by (cases s) simp_all
  finally have i: "dropWhile isspace (ind8 @ s @ [10]) = s @ [10]" .
  have a: "dropWhile isspace (10 # ind8 @ s @ [10]) = s @ [10]"
    using sp i by simp
  have b: "dropWhile isspace (rev (s @ [10])) = rev s"
    using assms sp by (cases s rule: rev_cases) auto
  show ?thesis by (simp only: strip_def a b rev_rev_ident)
qed

lemma two_part_style_guide: "style_guide two_part_request = two_part_prompt"
proof -
  have ne: "two_part_lines \<noteq> []" by (simp add: two_part_lines_def)
  have d: "dedent (template two_part_request) = join_nl (dedent_lines two_part_lines)"
    unfolding two_part_template by (rule dedent_join_nl [OF ne two_part_lines_no_nl])
  have j: "join_nl (dedent_lines two_part_lines) = 10 # ind8 @ two_part_prompt @ [10]"
    by (simp only: two_part_dedent_lines) (simp add: two_part_lines_def two_part_prompt_def)
  have n: "two_part_prompt \<noteq> []" by (simp add: two_part_prompt_def hd_body_write)
  have h: "hd two_part_prompt = 87"
    by (simp add: two_part_prompt_def hd_append hd_body_write)
  have l: "last two_part_prompt = 46"
    by (simp add: two_part_prompt_def ascii_def)
  have "strip (10 # ind8 @ two_part_prompt @ [10]) = two_part_prompt"
    by (rule strip_ind8_framed [OF n]) (simp_all add: h l isspace_def)
  then show ?thesis by (simp add: style_guide_def d j)
qed

lemma str_int_1200: "str_int 1200 = [49, 50, 48, 48]"
  by (simp add: str_int_def digits10.simps)

lemmas body_defs = body_write_def body_requirements_def body_genre_def body_characters_def
  body_hook_def body_arc_def body_show_def body_pacing_def body_tone_def body_length_def
  body_end_def body_backstory_def

lemma two_part_valid: "valid_request two_part_request"
  by (simp add: valid_request_def two_part_request_def two_part_strip)
     (simp add: two_part_premise_def strip_def isspace_def genres_def languages_def models_def
        ascii_def)

lemma two_part_name_twice: "occurrences (ascii ''Jiwoo'') two_part_prompt = 2"
  by (simp add: two_part_prompt_def body_defs ind8_def str_int_1200 ascii_def)

lemma two_part_premise_absent: "occurrences two_part_premise two_part_prompt = 0"
  by (simp add: two_part_prompt_def two_part_premise_def body_defs ind8_def str_int_1200 ascii_def)

section \<open>Credential resolution\<close>

text \<open>
  C3.  With no secrets file and \<open>OPENAI_API_KEY\<close> set in the environment,
  \<open>_get_api_key\<close> does not return the environment's value: the membership test of
  line 21 raises \<open>StreamlitSecretNotFoundError\<close> and \<open>os.getenv\<close> is never reached.
  (Where a secrets file exists the function does resolve as the claim says, see
  \<open>get_api_key_with_secrets_file\<close>.)
\<close>

theorem get_api_key_without_secrets_file:
  "environ (world_no_file_env New) OPENAI_API_KEY = Some (ascii ''sk-from-env'') \<and>
   fst (get_api_key (world_no_file_env New)) =
     Inl (StreamlitSecretNotFoundError no_secrets_message)"
  by (simp add: world_no_file_env_def get_api_key_no_secrets_file)


section \<open>The completion client\<close>

text \<open>
  C2.  With a key present, when the call of the service raises an exception with text
  \<open>e\<close>, \<open>generate_novel\<close> raises \<open>RuntimeError\<close> with the message
  \<open>OpenAI API error: e\<close>, and the run has made exactly one call of the service: the
  failing one, with no retry.  (The failures of the call are Python \<open>Exception\<close>s, as
  the client library raises them.)
\<close>

theorem api_failure_wrapped:
  assumes "fst (get_api_key w) = Inr (Some k)" and "k \<noteq> []"
    and "api (Some k) (outbound_request r) = ApiRaises e"
  shows "fst (generate_novel api r w) = Inl (RuntimeError (ascii ''OpenAI API error: '' @ e)) \<and>
         api_calls (snd (generate_novel api r w)) =
           api_calls w @ [ApiCall (sdk_style w) (Some k) (outbound_request r)]"
proof (rule conjI)
  show "fst (generate_novel api r w) = Inl (RuntimeError (ascii ''OpenAI API error: '' @ e))"
    using assms(3) by (simp add: generate_novel_cases [OF assms(1,2)])
  show "api_calls (snd (generate_novel api r w)) =
          api_calls w @ [ApiCall (sdk_style w) (Some k) (outbound_request r)]"
    by (rule api_calls_generate_novel [OF assms(1,2)])
qed

theorem api_failure_wrapped_witness:
  "fst (get_api_key (world_both New)) = Inr (Some (ascii ''sk-from-secrets'')) \<and>
   ascii ''sk-from-secrets'' \<noteq> [] \<and>
   failing_backend (Some (ascii ''sk-from-secrets'')) (outbound_request scenario_request)
     = ApiRaises (ascii ''Connection error.'') \<and>
   fst (generate_novel failing_backend scenario_request (world_both New))
     = Inl (RuntimeError (ascii ''OpenAI API error: Connection error.'')) \<and>
   length (api_calls (snd (generate_novel failing_backend scenario_request (world_both New)))) = 1"
proof -
  have k: "fst (get_api_key (world_both New)) = Inr (Some (ascii ''sk-from-secrets''))"
    by (rule scenario_keys)
  have n: "ascii ''sk-from-secrets'' \<noteq> []"
    by (simp add: ascii_def)
  have f: "failing_backend (Some (ascii ''sk-from-secrets'')) (outbound_request scenario_request)
      = ApiRaises (ascii ''Connection error.'')"
    by (simp add: failing_backend_def)
  have c: "api_calls (world_both New) = []"
    by (simp add: api_calls_def world_both_def)
  have e: "ascii ''OpenAI API error: '' @ ascii ''Connection error.''
      = ascii ''OpenAI API error: Connection error.''"
    by (simp add: ascii_def)
  show ?thesis
    using api_failure_wrapped [of "world_both New" "ascii ''sk-from-secrets''" failing_backend
        scenario_request "ascii ''Connection error.''", OF k n f] k n f
    by (simp add: c e)
qed

text \<open>
  C5.  With a key present, when the call succeeds and the first choice carries a message
  content \<open>c\<close>, \<open>generate_novel\<close> returns \<open>c.strip()\<close>.
\<close>

theorem success_returns_trimmed_content:
  assumes "fst (get_api_key w) = Inr (Some k)" and "k \<noteq> []"
    and "api (Some k) (outbound_request r) = ApiResponse (Some c # cs)"
  shows "fst (generate_novel api r w) = Inr (strip c)"
  using assms(3) by (simp add: generate_novel_cases [OF assms(1,2)])

theorem success_returns_trimmed_content_witness:
  "fst (get_api_key (world_env_only Legacy)) = Inr (Some (ascii ''sk-from-env'')) \<and>
   ascii ''sk-from-env'' \<noteq> [] \<and>
   echo_backend (Some (ascii ''sk-from-env'')) (outbound_request scenario_request)
     = ApiResponse [Some (ascii '' THE END.'' @ [10])] \<and>
   fst (generate_novel echo_backend scenario_request (world_env_only Legacy))
     = Inr (ascii ''THE END.'')"
  using success_returns_trimmed_content [of "world_env_only Legacy" "ascii ''sk-from-env''"
      echo_backend scenario_request "ascii '' THE END.'' @ [10]" "[]"]
  by (simp add: scenario_keys echo_backend_def ascii_def strip_def isspace_def)

text \<open>
  C6.  With a key present, \<open>generate_novel\<close> sends one request: the system message
  with the fixed instruction, then the user message with the Prompt Builder's output,
  the requested model and temperature, and \<open>max_tokens = 4096\<close> whatever the target
  length.
\<close>

theorem outbound_request_shape:
  assumes "fst (get_api_key w) = Inr (Some k)" and "k \<noteq> []"
  shows "api_calls (snd (generate_novel api r w)) =
           api_calls w @
           [ApiCall (sdk_style w) (Some k)
              \<lparr>req_model = model r, req_temperature = temperature r, req_max_tokens = 4096,
               req_messages =
                 [(ascii ''system'', system_instruction), (ascii ''user'', style_guide r)]\<rparr>]"
  using api_calls_generate_novel [OF assms, of api r] by (simp add: outbound_request_def)

theorem outbound_request_shape_witness:
  "fst (get_api_key (world_both Legacy)) = Inr (Some (ascii ''sk-from-secrets'')) \<and>
   ascii ''sk-from-secrets'' \<noteq> [] \<and>
   api_calls (snd (generate_novel echo_backend scenario_request (world_both Legacy))) =
     [ApiCall Legacy (Some (ascii ''sk-from-secrets''))
        \<lparr>req_model = ascii ''gpt-4o-mini'', req_temperature = 9 / 10, req_max_tokens = 4096,
         req_messages =
           [(ascii ''system'', system_instruction),
            (ascii ''user'', style_guide scenario_request)]\<rparr>]"
proof -
  have k: "fst (get_api_key (world_both Legacy)) = Inr (Some (ascii ''sk-from-secrets''))"
    by (rule scenario_keys)
  have n: "ascii ''sk-from-secrets'' \<noteq> []"
    by (simp add: ascii_def)
  have c: "api_calls (world_both Legacy) = []" and s: "sdk_style (world_both Legacy) = Legacy"
    by (simp_all add: api_calls_def world_both_def)
  have m: "model scenario_request = ascii ''gpt-4o-mini''"
    "temperature scenario_request = 9 / 10"
    by (simp_all add: scenario_request_def)
  show ?thesis
    using outbound_request_shape [OF k n, of echo_backend scenario_request] k n
    by (simp add: c s m)
qed

text \<open>
  C10.  For the same arguments, state and service, the new and the legacy branch give
  the same result (the same text, the same \<open>RuntimeError\<close>, or the same stop) and
  present the same key with the same request to the service.
\<close>

theorem sdk_paths_equivalent:
  "fst (generate_novel api r (w\<lparr>sdk_style := New\<rparr>)) =
     fst (generate_novel api r (w\<lparr>sdk_style := Legacy\<rparr>)) \<and>
   map call_args (api_calls (snd (generate_novel api r (w\<lparr>sdk_style := New\<rparr>)))) =
     map call_args (api_calls (snd (generate_novel api r (w\<lparr>sdk_style := Legacy\<rparr>))))"
proof -
  have k: "fst (get_api_key (w\<lparr>sdk_style := s\<rparr>)) = fst (get_api_key w)" for s
    by (simp add: get_api_key_def st_secrets_def emit_def
        split: secrets_store.splits option.splits)
  have c: "api_calls (w\<lparr>sdk_style := s\<rparr>) = api_calls w" for s
    by (simp add: api_calls_def)
  show ?thesis
  proof (cases w rule: lookup_cases)
    case (raises e)
    have n: "fst (get_api_key (w\<lparr>sdk_style := New\<rparr>)) = Inl e"
      and l: "fst (get_api_key (w\<lparr>sdk_style := Legacy\<rparr>)) = Inl e"
      using raises by (simp_all add: k)
    show ?thesis
      by (simp add: generate_novel_raises [OF n] generate_novel_raises [OF l] c)
  next
    case (none x)
    have n: "fst (get_api_key (w\<lparr>sdk_style := New\<rparr>)) = Inr x"
      and l: "fst (get_api_key (w\<lparr>sdk_style := Legacy\<rparr>)) = Inr x"
      using none(1) by (simp_all add: k)
    show ?thesis
      by (simp add: generate_novel_no_key [OF n none(2)] generate_novel_no_key [OF l none(2)] c)
  next
    case (key k)
    have n: "fst (get_api_key (w\<lparr>sdk_style := New\<rparr>)) = Inr (Some k)"
      and l: "fst (get_api_key (w\<lparr>sdk_style := Legacy\<rparr>)) = Inr (Some k)"
      using key(1) by (simp_all add: k)
    show ?thesis
      by (simp add: generate_novel_cases [OF n key(2)] generate_novel_cases [OF l key(2)]
          api_calls_emit c)
  qed
qed

section \<open>The Prompt Builder\<close>

text \<open>
  C9.  The Prompt Builder is a function of the names, genre, premise, language and target
  length alone: two requests that agree on these fields (whatever their temperature and
  model) give the same string, code point for code point, hence byte for byte.
\<close>

theorem prompt_builder_deterministic:
  fixes r1 :: "'a story_request" and r2 :: "'b story_request"
  assumes "protagonist1 r1 = protagonist1 r2" and "protagonist2 r1 = protagonist2 r2"
    and "genre r1 = genre r2" and "premise r1 = premise r2" and "language r1 = language r2"
    and "target_words r1 = target_words r2"
  shows "style_guide r1 = style_guide r2"
  using assms by (simp add: style_guide_def template_def)

theorem prompt_builder_deterministic_witness:
  "protagonist1 (scenario_request\<lparr>temperature := 0, model := ascii ''gpt-4o''\<rparr>)
     = protagonist1 scenario_request \<and>
   style_guide (scenario_request\<lparr>temperature := 0, model := ascii ''gpt-4o''\<rparr>)
     = style_guide scenario_request"
  using prompt_builder_deterministic
    [of "scenario_request\<lparr>temperature := 0, model := ascii ''gpt-4o''\<rparr>" scenario_request]
  by simp

text \<open>
  C1.  The claim that each of the five values occurs exactly once in the prompt fails.
  For a valid request whose premise repeats the first character's name and has a line of
  two spaces between its paragraphs, the name occurs twice, and the trimmed premise does
  not occur at all: \<open>dedent\<close> runs after the fields are filled in and empties the line
  of spaces.
\<close>

theorem prompt_fields_not_exactly_once:
  "valid_request two_part_request \<and>
   occurrences (protagonist1 two_part_request) (style_guide two_part_request) = 2 \<and>
   occurrences (strip (premise two_part_request)) (style_guide two_part_request) = 0"
proof -
  have p: "protagonist1 two_part_request = ascii ''Jiwoo''"
    "premise two_part_request = two_part_premise"
    by (simp_all add: two_part_request_def)
  show ?thesis
    unfolding two_part_style_guide p two_part_strip
    using two_part_valid two_part_name_twice two_part_premise_absent by blast
qed

text \<open>
  C1, as amended.  For every valid request whose names and trimmed premise hold no line
  feed, the prompt contains the genre, both names, the language and the trimmed premise,
  each at least once.
\<close>

theorem prompt_contains_fields:
  assumes "valid_request r" and "10 \<notin> set (protagonist1 r)" and "10 \<notin> set (protagonist2 r)"
    and "10 \<notin> set (strip (premise r))"
  shows "1 \<le> occurrences (genre r) (style_guide r) \<and>
         1 \<le> occurrences (protagonist1 r) (style_guide r) \<and>
         1 \<le> occurrences (protagonist2 r) (style_guide r) \<and>
         1 \<le> occurrences (language r) (style_guide r) \<and>
         1 \<le> occurrences (strip (premise r)) (style_guide r)"
proof -
  from assms(1) have g: "10 \<notin> set (genre r)" and l: "10 \<notin> set (language r)"
    and p: "strip (premise r) \<noteq> []"
    by (simp_all add: valid_request_def genres_no_nl languages_no_nl)
  have s: "style_guide r = single_line_prompt r"
    by (rule style_guide_single_line [OF l g assms(2,3,4) p])
  have pos: "1 \<le> occurrences pat t \<longleftrightarrow> sublist pat t" for pat t
    using occurrences_pos [of pat t] by auto
  show ?thesis
    by (simp only: s pos single_line_prompt_contains)
qed

theorem prompt_contains_fields_witness:
  "valid_request scenario_request \<and> 10 \<notin> set (protagonist1 scenario_request) \<and>
   10 \<notin> set (protagonist2 scenario_request) \<and> 10 \<notin> set (strip (premise scenario_request)) \<and>
   1 \<le> occurrences (genre scenario_request) (style_guide scenario_request) \<and>
   1 \<le> occurrences (protagonist1 scenario_request) (style_guide scenario_request) \<and>
   1 \<le> occurrences (protagonist2 scenario_request) (style_guide scenario_request) \<and>
   1 \<le> occurrences (language scenario_request) (style_guide scenario_request) \<and>
   1 \<le> occurrences (strip (premise scenario_request)) (style_guide scenario_request)"
  using prompt_contains_fields [OF scenario_valid scenario_no_nl] scenario_valid scenario_no_nl
  by blast

section \<open>Process-wide state\<close>



text \<open>
  C7.  The claim that the key is resolved exactly once and that nothing is changed
  afterwards fails: one submission with a key present and a complete form looks the key
  up twice, once in the handler and once in \<open>_get_client\<close>; and the first lookup, by
  reading \<open>st.secrets\<close>, overwrites \<open>OPENAI_API_KEY\<close> in the environment with the
  value of the secrets store.
\<close>

theorem key_resolved_twice_per_submission:
  "key_lookups (world_both New) = 0 \<and>
   key_lookups (snd (on_submit echo_backend scenario_form (world_both New))) = 2 \<and>
   environ (world_both New) OPENAI_API_KEY = Some (ascii ''sk-from-env'') \<and>
   environ (snd (get_api_key (world_both New))) OPENAI_API_KEY = Some (ascii ''sk-from-secrets'')"
proof -
  have k: "fst (get_api_key (world_both New)) = Inr (Some (ascii ''sk-from-secrets''))"
    by (rule scenario_keys)
  have z: "key_lookups (world_both New) = 0"
    by (simp add: key_lookups_def world_both_def)
  have f: "f_cta scenario_form" "form_complete scenario_form"
    by (simp_all add: scenario_form_def form_complete_def)
  have n: "\<not> falsy (Some (ascii ''sk-from-secrets''))"
    by (simp add: falsy_def ascii_def)
  have e1: "environ (world_both New) OPENAI_API_KEY = Some (ascii ''sk-from-env'')"
    by (simp add: world_both_def)
  have e2: "environ (snd (get_api_key (world_both New))) OPENAI_API_KEY
      = Some (ascii ''sk-from-secrets'')"
    by (simp add: get_api_key_def st_secrets_def emit_def world_both_def)
  show ?thesis
    using on_submit_effect [of "world_both New" echo_backend scenario_form]
    by (simp add: k z f n e1 e2)
qed

text \<open>
  C7, as amended.  The key is resolved anew on every use: a submission looks it up once
  when the lookup raises, the key is missing or the form is incomplete, and twice
  otherwise; every call of \<open>generate_novel\<close> looks it up once.  No sequence of
  operations changes the secrets store; the environment is either unchanged or, after
  the first successful read of \<open>st.secrets\<close>, overwritten with the store's entries.
\<close>

theorem key_resolved_on_every_use:
  assumes "f_cta f"
  shows "key_lookups (snd (on_submit api f w)) =
           key_lookups w +
             (case fst (get_api_key w) of
                Inl e \<Rightarrow> 1
              | Inr api_key \<Rightarrow> if falsy api_key \<or> \<not> form_complete f then 1 else 2) \<and>
         key_lookups (snd (generate_novel api r w)) = key_lookups w + 1 \<and>
         secrets (run api acts w) = secrets w \<and>
         (case secrets w of
            NoSecretsFile msg \<Rightarrow> environ (run api acts w) = environ w
          | SecretsFile m \<Rightarrow>
              environ (run api acts w) = environ w \<or>
              environ (run api acts w) = environ w ++ m)"
proof -
  have "sources_step w (run api acts w)" by (rule run_sources)
  then have "secrets (run api acts w) = secrets w \<and>
         (case secrets w of
            NoSecretsFile msg \<Rightarrow> environ (run api acts w) = environ w
          | SecretsFile m \<Rightarrow>
              environ (run api acts w) = environ w \<or>
              environ (run api acts w) = environ w ++ m)"
    by (auto simp: sources_step_def split: secrets_store.splits)
  then show ?thesis
    using assms on_submit_effect [of w api f] generate_novel_effect [of w api r]
    by simp
qed

theorem key_resolved_on_every_use_witness:
  "f_cta scenario_form \<and>
   key_lookups (snd (on_submit echo_backend scenario_form (world_both Legacy))) = 2 \<and>
   key_lookups (snd (generate_novel echo_backend scenario_request (world_both Legacy))) = 1 \<and>
   secrets (run echo_backend [Submit scenario_form, Submit scenario_form] (world_both Legacy))
     = secrets (world_both Legacy) \<and>
   (environ (run echo_backend [Submit scenario_form, Submit scenario_form] (world_both Legacy))
      = environ (world_both Legacy) \<or>
    environ (run echo_backend [Submit scenario_form, Submit scenario_form] (world_both Legacy))
      = environ (world_both Legacy) ++ [OPENAI_API_KEY \<mapsto> ascii ''sk-from-secrets''])"
proof -
  have k: "fst (get_api_key (world_both Legacy)) = Inr (Some (ascii ''sk-from-secrets''))"
    by (rule scenario_keys)
  have z: "key_lookups (world_both Legacy) = 0"
    by (simp add: key_lookups_def world_both_def)
  have f: "f_cta scenario_form" "form_complete scenario_form"
    by (simp_all add: scenario_form_def form_complete_def)
  have n: "\<not> falsy (Some (ascii ''sk-from-secrets''))"
    by (simp add: falsy_def ascii_def)
  have s: "secrets (world_both Legacy) = SecretsFile [OPENAI_API_KEY \<mapsto> ascii ''sk-from-secrets'']"
    by (simp add: world_both_def)
  show ?thesis
    using key_resolved_on_every_use [OF f(1), where api = echo_backend
        and w = "world_both Legacy" and r = scenario_request
        and acts = "[Submit scenario_form, Submit scenario_form]"]
    by (simp add: k z f n s)
qed

end
